theory Spec2Isabelle
  imports Main "HOL-Library.Word"
begin

section \<open>Package logger: a facade over a structured-logging engine\<close>

text \<open>
  The package (src/logger/logger.go) translates a three-field configuration into the
  configuration of its logging engine, builds one engine logger from it and wraps that
  logger in a handle whose methods forward to the engine.

  The engine is the library go.uber.org/zap, which the package imports; its code is not
  under src/. The first subsection is the part of the engine the package calls, each
  definition naming the library function it stands for; the second subsection is the
  package itself, function by function.
\<close>

subsection \<open>The engine\<close>

text \<open>
  Severity levels of the engine (zapcore.Level), in increasing order. The package's
  configuration comment names five of them; the engine has seven.
\<close>

datatype Level =
  DebugLevel | InfoLevel | WarnLevel | ErrorLevel | DPanicLevel | PanicLevel | FatalLevel

text \<open>The engine's numeric value of a level (an int8, from -1 to 5).\<close>

fun level_num :: "Level \<Rightarrow> int" where
  "level_num DebugLevel = -1"
| "level_num InfoLevel = 0"
| "level_num WarnLevel = 1"
| "level_num ErrorLevel = 2"
| "level_num DPanicLevel = 3"
| "level_num PanicLevel = 4"
| "level_num FatalLevel = 5"

text \<open>
  Modelled from the spec: the severity threshold is the minimum level at which entries are
  emitted (zapcore.Level.Enabled: the entry's level is at least the threshold).
\<close>

definition Enabled :: "Level \<Rightarrow> Level \<Rightarrow> bool" where
  "Enabled threshold lvl = (level_num threshold \<le> level_num lvl)"

text \<open>
  The errors NewWithConfig can return. The engine's errors are kept structured, each
  constructor standing for one message of the library; \<open>Errorf prefix e\<close> is the error
  that \<open>fmt.Errorf(prefix + "%v", e)\<close> makes: the prefix followed by the text of \<open>e\<close>.
\<close>

datatype error =
  UnrecognizedLevel string
| NoEncoderNameSpecified
| NoEncoderRegistered string
| OpenFailed "string list"
| Errorf string error

text \<open>
  What the package cannot see of its surroundings: how the engine lower-cases a byte
  string (bytes.ToLower), which spellings of a level the linked release of the engine
  reads beyond those its documentation lists (the repository pins no release; later
  releases add aliases such as "warning"), which encoding names have a registered
  encoder, and which output paths the engine can open for writing.
\<close>

record Env =
  ToLower :: "string \<Rightarrow> string"
  level_alias :: "string \<Rightarrow> Level option"
  encoder_registered :: "string \<Rightarrow> bool"
  can_open :: "string \<Rightarrow> bool"

text \<open>
  The engine's level parser (zapcore.Level.unmarshalText): the seven level names in lower
  or upper case, the empty string, which stands for the info level, and the aliases of
  the release.
\<close>

definition unmarshalText :: "Env \<Rightarrow> string \<Rightarrow> Level option" where
  "unmarshalText env text =
     (if text = ''debug'' \<or> text = ''DEBUG'' then Some DebugLevel
      else if text = ''info'' \<or> text = ''INFO'' \<or> text = '''' then Some InfoLevel
      else if text = ''warn'' \<or> text = ''WARN'' then Some WarnLevel
      else if text = ''error'' \<or> text = ''ERROR'' then Some ErrorLevel
      else if text = ''dpanic'' \<or> text = ''DPANIC'' then Some DPanicLevel
      else if text = ''panic'' \<or> text = ''PANIC'' then Some PanicLevel
      else if text = ''fatal'' \<or> text = ''FATAL'' then Some FatalLevel
      else level_alias env text)"

text \<open>
  zap.AtomicLevel.UnmarshalText: the text as it is, then lower-cased; when neither is a
  level name the error is "unrecognized level" with the text.
\<close>

definition UnmarshalText :: "Env \<Rightarrow> string \<Rightarrow> error + Level" where
  "UnmarshalText env text =
     (case unmarshalText env text of
        Some l \<Rightarrow> Inr l
      | None \<Rightarrow>
          (case unmarshalText env (ToLower env text) of
             Some l \<Rightarrow> Inr l
           | None \<Rightarrow> Inl (UnrecognizedLevel text)))"

text \<open>
  A non-nil Go error value, as far as the engine looks at it when it encodes an error
  field (zapcore's encodeError): the text its Error method returns, and whether it is a
  plain error, an error that formats itself (fmt.Formatter, with its "%+v" text), or a
  group of errors (with its non-nil members). A Go variable of type error is a
  \<open>go_error option\<close>, \<open>None\<close> being nil. Errors whose Error method panics are not
  modelled.
\<close>

datatype go_error =
  PlainError string
| FormatterError string string
| GroupError string "go_error list"

text \<open>
  Dynamic Go values (\<open>interface{}\<close>): the nil interface, the types the package's own
  helpers cover, and every other value, of which nothing is looked at. A float64 is its
  IEEE-754 bit pattern, an int (on a 64-bit target) and an int64 are 64-bit words, a
  time.Duration is an int64 of nanoseconds.
\<close>

typedecl go_other

datatype go_value =
  VNil
| VString string
| VInt "64 word"
| VInt64 "64 word"
| VFloat64 "64 word"
| VBool bool
| VError go_error
| VDuration "64 word"
| VOther go_other

text \<open>
  The engine's field (zap.Field): a key with a typed value, or the no-op field that
  zap.Skip makes, which adds nothing to an entry. \<open>OtherType\<close> stands for the field
  types the engine has for the dynamic types not listed (times, slices, marshalers,
  stringers, ... ), each holding the value under the key.
\<close>

datatype FieldValue =
  StringType string
| Int64Type "64 word"
| Float64Type "64 word"
| BoolType bool
| ErrorType go_error
| DurationType "64 word"
| ReflectType go_value
| OtherType go_other

datatype Field = Skip | Field (Key: string) (Val: FieldValue)

text \<open>The engine's field constructors (zap.String, zap.Int, ... ).\<close>

definition zap_String :: "string \<Rightarrow> string \<Rightarrow> Field" where
  "zap_String key val = Field key (StringType val)"

definition zap_Int64 :: "string \<Rightarrow> 64 word \<Rightarrow> Field" where
  "zap_Int64 key val = Field key (Int64Type val)"

text \<open>zap.Int widens the int to an int64.\<close>

definition zap_Int :: "string \<Rightarrow> 64 word \<Rightarrow> Field" where
  "zap_Int key val = zap_Int64 key val"

definition zap_Float64 :: "string \<Rightarrow> 64 word \<Rightarrow> Field" where
  "zap_Float64 key val = Field key (Float64Type val)"

definition zap_Bool :: "string \<Rightarrow> bool \<Rightarrow> Field" where
  "zap_Bool key val = Field key (BoolType val)"

definition zap_Duration :: "string \<Rightarrow> 64 word \<Rightarrow> Field" where
  "zap_Duration key val = Field key (DurationType val)"

definition zap_Reflect :: "string \<Rightarrow> go_value \<Rightarrow> Field" where
  "zap_Reflect key val = Field key (ReflectType val)"

text \<open>
  zap.NamedError: a nil error gives the no-op field; a non-nil error is stored as it is,
  its Error method is not called here.
\<close>

definition zap_NamedError :: "string \<Rightarrow> go_error option \<Rightarrow> Field" where
  "zap_NamedError key err =
     (case err of None \<Rightarrow> Skip | Some e \<Rightarrow> Field key (ErrorType e))"

text \<open>zap.Error is NamedError under the key "error".\<close>

definition zap_Error :: "go_error option \<Rightarrow> Field" where
  "zap_Error err = zap_NamedError ''error'' err"

text \<open>
  zap.Any chooses the field by the dynamic type of the value: the typed constructor for a
  listed type, a reflected field for the nil interface, and for any other value the
  engine's field for its type.
\<close>

fun zap_Any :: "string \<Rightarrow> go_value \<Rightarrow> Field" where
  "zap_Any key (VString s) = zap_String key s"
| "zap_Any key (VInt i) = zap_Int key i"
| "zap_Any key (VInt64 i) = zap_Int64 key i"
| "zap_Any key (VFloat64 f) = zap_Float64 key f"
| "zap_Any key (VBool b) = zap_Bool key b"
| "zap_Any key (VError e) = zap_NamedError key (Some e)"
| "zap_Any key (VDuration d) = zap_Duration key d"
| "zap_Any key VNil = zap_Reflect key VNil"
| "zap_Any key (VOther v) = Field key (OtherType v)"

text \<open>
  The calls a field makes on the engine's object encoder (zapcore.ObjectEncoder) when it
  is added to an entry. The encoder has no method for errors; \<open>AddArray\<close> carries the
  objects of an array, each the list of calls made on it; \<open>AddOther\<close> stands for the
  encoder method of a field type that is not listed, called with the key and the value.
\<close>

datatype EncoderCall =
  AddString string string
| AddInt64 string "64 word"
| AddFloat64 string "64 word"
| AddBool string bool
| AddDuration string "64 word"
| AddReflected string go_value
| AddArray string "EncoderCall list list"
| AddOther string go_other

text \<open>
  zapcore's encodeError: the error's text under the key; for a group of errors also the
  array of its members under the key followed by "Causes", each member an object with
  the member encoded under "error"; for a self-formatting error also its "%+v" text
  under the key followed by "Verbose", when that text differs from the plain one.
\<close>

fun encodeError :: "string \<Rightarrow> go_error \<Rightarrow> EncoderCall list" where
  "encodeError key (PlainError basic) = [AddString key basic]"
| "encodeError key (FormatterError basic verbose) =
     AddString key basic #
     (if verbose \<noteq> basic then [AddString (key @ ''Verbose'') verbose] else [])"
| "encodeError key (GroupError basic errs) =
     [AddString key basic,
      AddArray (key @ ''Causes'') (map (encodeError ''error'') errs)]"

text \<open>
  What a field adds to an entry being encoded (zapcore.Field.AddTo). A duration field is
  the only one handed to the encoder's duration method, which applies the configured
  duration encoder.
\<close>

fun AddTo :: "Field \<Rightarrow> EncoderCall list" where
  "AddTo Skip = []"
| "AddTo (Field k (StringType s)) = [AddString k s]"
| "AddTo (Field k (Int64Type i)) = [AddInt64 k i]"
| "AddTo (Field k (Float64Type f)) = [AddFloat64 k f]"
| "AddTo (Field k (BoolType b)) = [AddBool k b]"
| "AddTo (Field k (ErrorType e)) = encodeError k e"
| "AddTo (Field k (DurationType d)) = [AddDuration k d]"
| "AddTo (Field k (ReflectType v)) = [AddReflected k v]"
| "AddTo (Field k (OtherType v)) = [AddOther k v]"

text \<open>The engine's encoder settings (zapcore.EncoderConfig), with the fields the package sets.\<close>

datatype LevelEncoder = LowercaseLevelEncoder | CapitalLevelEncoder
datatype TimeEncoder = EpochTimeEncoder | ISO8601TimeEncoder
datatype DurationEncoder = SecondsDurationEncoder | StringDurationEncoder
datatype CallerEncoder = FullCallerEncoder | ShortCallerEncoder

record EncoderConfig =
  TimeKey :: string
  LevelKey :: string
  NameKey :: string
  CallerKey :: string
  FunctionKey :: string
  MessageKey :: string
  StacktraceKey :: string
  LineEnding :: string
  EncodeLevel :: LevelEncoder
  EncodeTime :: TimeEncoder
  EncodeDuration :: DurationEncoder
  EncodeCaller :: CallerEncoder

text \<open>zapcore.OmitKey and zapcore.DefaultLineEnding.\<close>

definition OmitKey :: string where
  "OmitKey = ''''"

definition DefaultLineEnding :: string where
  "DefaultLineEnding = [CHR 0x0A]"

text \<open>
  The engine's configuration (zap.Config), with the fields the package sets and
  \<open>DisableCaller\<close>, which the package leaves at its zero value.
\<close>

record Config =
  Level :: Level
  Development :: bool
  DisableCaller :: bool
  Encoding :: string
  EncoderConfig :: EncoderConfig
  OutputPaths :: "string list"
  ErrorOutputPaths :: "string list"

text \<open>
  An engine logger (zap.Logger): its threshold, its encoder, the sinks it writes to, the
  fields every entry of it carries, whether it reports the caller, and the number of
  stack frames it skips when it looks the caller up.
\<close>

record ZapLogger =
  threshold :: Level
  encoding :: string
  encoderConfig :: EncoderConfig
  sinks :: "string list"
  errorSinks :: "string list"
  coreFields :: "Field list"
  addCaller :: bool
  callerSkip :: nat

datatype BuildOption = AddCallerSkip nat

text \<open>
  Modelled from the spec: the engine rejects unrecognized encodings at construction time
  (zap's encoder lookup; an empty name is rejected before the lookup).
\<close>

definition newEncoder :: "Env \<Rightarrow> string \<Rightarrow> error + string" where
  "newEncoder env name =
     (if name = '''' then Inl NoEncoderNameSpecified
      else if \<not> encoder_registered env name then Inl (NoEncoderRegistered name)
      else Inr name)"

text \<open>
  Modelled from the spec: the output destination is opened as part of engine
  construction, and this may fail (zap.Open). The names "stdout" and "stderr" are the
  process's own streams and always open; the error names the paths that did not open.
\<close>

definition opens :: "Env \<Rightarrow> string \<Rightarrow> bool" where
  "opens env path = (path = ''stdout'' \<or> path = ''stderr'' \<or> can_open env path)"

definition Open :: "Env \<Rightarrow> string list \<Rightarrow> error + string list" where
  "Open env paths =
     (if list_all (opens env) paths then Inr paths
      else Inl (OpenFailed (filter (\<lambda>p. \<not> opens env p) paths)))"

fun applyOption :: "BuildOption \<Rightarrow> ZapLogger \<Rightarrow> ZapLogger" where
  "applyOption (AddCallerSkip n) z = z\<lparr>callerSkip := callerSkip z + n\<rparr>"

text \<open>
  zap.Config.Build: the encoder first, then the sinks, then the error sinks; the logger
  starts with no fields, reports the caller unless the configuration disables it, and
  the options are applied in order.
\<close>

definition Build :: "Env \<Rightarrow> Config \<Rightarrow> BuildOption list \<Rightarrow> error + ZapLogger" where
  "Build env cfg opts =
     (case newEncoder env (Encoding cfg) of
        Inl e \<Rightarrow> Inl e
      | Inr enc \<Rightarrow>
          (case Open env (OutputPaths cfg) of
             Inl e \<Rightarrow> Inl e
           | Inr sink \<Rightarrow>
               (case Open env (ErrorOutputPaths cfg) of
                  Inl e \<Rightarrow> Inl e
                | Inr errSink \<Rightarrow>
                    Inr (foldl (\<lambda>z opt. applyOption opt z)
                          \<lparr>threshold = Level cfg, encoding = enc,
                           encoderConfig = EncoderConfig cfg, sinks = sink,
                           errorSinks = errSink, coreFields = [],
                           addCaller = (\<not> DisableCaller cfg), callerSkip = 0\<rparr>
                          opts))))"

text \<open>
  A call stack: the call sites of the active calls, innermost first, each written as the
  engine's short caller encoder prints it (package/file:line). The stack a method is
  given starts with the site of the call to that method.
\<close>

type_synonym frame = string

text \<open>
  The caller an engine logger reports (zap.Logger.check with AddCaller): the call site
  \<open>callerSkip\<close> frames above the site that called the engine's method; none when the
  logger does not report callers or the stack is not that deep.
\<close>

definition reportedCaller :: "ZapLogger \<Rightarrow> frame list \<Rightarrow> frame option" where
  "reportedCaller z stack =
     (if addCaller z \<and> callerSkip z < length stack then Some (stack ! callerSkip z)
      else None)"

text \<open>
  A log entry as it reaches a sink: its level, its message, its fields (the logger's own
  fields first, then those of the call) and the caller it reports; the time stamp and
  the stack trace that the engine adds are left out. The output of the process is the
  list of entries written so far, each with the sink it went to.
\<close>

record Entry =
  EntryLevel :: Level
  Message :: string
  Fields :: "Field list"
  Caller :: "frame option"

type_synonym written = "(string \<times> Entry) list"

text \<open>
  A call either returns, or ends the process with an exit code; both carry the output
  written by then.
\<close>

datatype outcome = Return written | Exit int written

text \<open>
  Modelled from the spec: entries below the threshold are not emitted; those at or above
  it are (zap.Logger's check and write: one entry to every sink of the logger).
\<close>

definition zap_log ::
  "ZapLogger \<Rightarrow> Level \<Rightarrow> string \<Rightarrow> Field list \<Rightarrow> frame list \<Rightarrow> written \<Rightarrow> written" where
  "zap_log z lvl msg fs stack out =
     (if Enabled (threshold z) lvl
      then out @ map (\<lambda>p. (p, \<lparr>EntryLevel = lvl, Message = msg,
                               Fields = coreFields z @ fs,
                               Caller = reportedCaller z stack\<rparr>)) (sinks z)
      else out)"

definition zap_Debug ::
  "ZapLogger \<Rightarrow> string \<Rightarrow> Field list \<Rightarrow> frame list \<Rightarrow> written \<Rightarrow> outcome" where
  "zap_Debug z msg fs stack out = Return (zap_log z DebugLevel msg fs stack out)"

definition zap_Info ::
  "ZapLogger \<Rightarrow> string \<Rightarrow> Field list \<Rightarrow> frame list \<Rightarrow> written \<Rightarrow> outcome" where
  "zap_Info z msg fs stack out = Return (zap_log z InfoLevel msg fs stack out)"

definition zap_Warn ::
  "ZapLogger \<Rightarrow> string \<Rightarrow> Field list \<Rightarrow> frame list \<Rightarrow> written \<Rightarrow> outcome" where
  "zap_Warn z msg fs stack out = Return (zap_log z WarnLevel msg fs stack out)"

definition zap_Error_log ::
  "ZapLogger \<Rightarrow> string \<Rightarrow> Field list \<Rightarrow> frame list \<Rightarrow> written \<Rightarrow> outcome" where
  "zap_Error_log z msg fs stack out = Return (zap_log z ErrorLevel msg fs stack out)"

text \<open>
  Modelled from the spec: the engine's fatal-severity emission terminates the process
  after writing (zap.Logger.Fatal: the entry is written, then os.Exit(1)).
\<close>

definition zap_Fatal ::
  "ZapLogger \<Rightarrow> string \<Rightarrow> Field list \<Rightarrow> frame list \<Rightarrow> written \<Rightarrow> outcome" where
  "zap_Fatal z msg fs stack out = Exit 1 (zap_log z FatalLevel msg fs stack out)"

text \<open>
  Modelled from the spec: a new engine instance pre-populated with the supplied fields,
  the original left as it was (zap.Logger.With: the logger itself when there is no field,
  else a clone whose core has the fields added).
\<close>

definition zap_With :: "ZapLogger \<Rightarrow> Field list \<Rightarrow> ZapLogger" where
  "zap_With z fs = (if fs = [] then z else z\<lparr>coreFields := coreFields z @ fs\<rparr>)"

text \<open>os.Exit.\<close>

definition os_Exit :: "int \<Rightarrow> written \<Rightarrow> outcome" where
  "os_Exit code out = Exit code out"

text \<open>Sequencing of two statements: the second runs only if the first returned.\<close>

definition and_then :: "outcome \<Rightarrow> (written \<Rightarrow> outcome) \<Rightarrow> outcome" where
  "and_then r f = (case r of Return out \<Rightarrow> f out | Exit code out \<Rightarrow> Exit code out)"

subsection \<open>The package\<close>

text \<open>\<open>type Logger struct { *zap.Logger }\<close>\<close>

datatype Logger = Logger (zap: ZapLogger)

text \<open>\<open>type LogConfig struct\<close>; the record's field for \<open>Level\<close> is \<open>LogLevel\<close>.\<close>

record LogConfig =
  LogLevel :: string
  OutputPath :: string
  Format :: string

text \<open>
  Lines 42 to 72 of NewWithConfig: the engine configuration made from the parsed level and
  the package's configuration.
\<close>

definition outputPaths :: "LogConfig \<Rightarrow> string list" where
  "outputPaths config =
     (if OutputPath config = ''stdout'' then [''stdout''] else [OutputPath config])"

definition encoderConfig_const :: EncoderConfig where
  "encoderConfig_const =
     \<lparr>TimeKey = ''ts'', LevelKey = ''level'', NameKey = ''logger'', CallerKey = ''caller'',
      FunctionKey = OmitKey, MessageKey = ''msg'', StacktraceKey = ''stacktrace'',
      LineEnding = DefaultLineEnding, EncodeLevel = CapitalLevelEncoder,
      EncodeTime = ISO8601TimeEncoder, EncodeDuration = StringDurationEncoder,
      EncodeCaller = ShortCallerEncoder\<rparr>"

definition zapConfig :: "Level \<Rightarrow> LogConfig \<Rightarrow> Config" where
  "zapConfig level config =
     \<lparr>Level = level, Development = False, DisableCaller = False,
      Encoding = Format config, EncoderConfig = encoderConfig_const,
      OutputPaths = outputPaths config, ErrorOutputPaths = [''stderr'']\<rparr>"

definition NewWithConfig :: "Env \<Rightarrow> LogConfig \<Rightarrow> error + Logger" where
  "NewWithConfig env config =
     (case UnmarshalText env (LogLevel config) of
        Inl err \<Rightarrow> Inl (Errorf ''invalid log level: '' err)
      | Inr level \<Rightarrow>
          (case Build env (zapConfig level config) [AddCallerSkip 1] of
             Inl err \<Rightarrow> Inl err
           | Inr zapLogger \<Rightarrow> Inr (Logger zapLogger)))"

definition New :: "Env \<Rightarrow> error + Logger" where
  "New env =
     NewWithConfig env \<lparr>LogLevel = ''info'', OutputPath = ''stdout'', Format = ''console''\<rparr>"

text \<open>
  The methods of the handle. Each calls the engine's method from its own body, so the
  engine sees the site of that call (the line of logger.go) on top of the stack the
  method was called with.
\<close>

definition Logger_Debug ::
  "Logger \<Rightarrow> string \<Rightarrow> Field list \<Rightarrow> frame list \<Rightarrow> written \<Rightarrow> outcome" where
  "Logger_Debug l msg fs stack out =
     zap_Debug (zap l) msg fs (''logger/logger.go:84'' # stack) out"

definition Logger_Info ::
  "Logger \<Rightarrow> string \<Rightarrow> Field list \<Rightarrow> frame list \<Rightarrow> written \<Rightarrow> outcome" where
  "Logger_Info l msg fs stack out =
     zap_Info (zap l) msg fs (''logger/logger.go:89'' # stack) out"

definition Logger_Warn ::
  "Logger \<Rightarrow> string \<Rightarrow> Field list \<Rightarrow> frame list \<Rightarrow> written \<Rightarrow> outcome" where
  "Logger_Warn l msg fs stack out =
     zap_Warn (zap l) msg fs (''logger/logger.go:94'' # stack) out"

definition Logger_Error ::
  "Logger \<Rightarrow> string \<Rightarrow> Field list \<Rightarrow> frame list \<Rightarrow> written \<Rightarrow> outcome" where
  "Logger_Error l msg fs stack out =
     zap_Error_log (zap l) msg fs (''logger/logger.go:99'' # stack) out"

definition Logger_Fatal ::
  "Logger \<Rightarrow> string \<Rightarrow> Field list \<Rightarrow> frame list \<Rightarrow> written \<Rightarrow> outcome" where
  "Logger_Fatal l msg fs stack out =
     zap_Fatal (zap l) msg fs (''logger/logger.go:104'' # stack) out"

text \<open>
  Fatalf: the engine's Fatal when the error is not nil, and then \<open>os.Exit(1)\<close>, which is
  reached only if the statement before it returned.
\<close>

definition Logger_Fatalf ::
  "Logger \<Rightarrow> string \<Rightarrow> go_error option \<Rightarrow> frame list \<Rightarrow> written \<Rightarrow> outcome" where
  "Logger_Fatalf l format err stack out =
     and_then
       (if err \<noteq> None
        then zap_Fatal (zap l) format [zap_Error err] (''logger/logger.go:110'' # stack) out
        else Return out)
       (os_Exit 1)"

definition Logger_WithFields :: "Logger \<Rightarrow> Field list \<Rightarrow> Logger" where
  "Logger_WithFields l fs = Logger (zap_With (zap l) fs)"

text \<open>The free functions that make fields; \<open>Int\<close> is \<open>Int_field\<close> here.\<close>

definition String :: "string \<Rightarrow> string \<Rightarrow> Field" where
  "String key val = zap_String key val"

definition Int_field :: "string \<Rightarrow> 64 word \<Rightarrow> Field" where
  "Int_field key val = zap_Int key val"

definition Int64 :: "string \<Rightarrow> 64 word \<Rightarrow> Field" where
  "Int64 key val = zap_Int64 key val"

definition Float64 :: "string \<Rightarrow> 64 word \<Rightarrow> Field" where
  "Float64 key val = zap_Float64 key val"

definition Bool :: "string \<Rightarrow> bool \<Rightarrow> Field" where
  "Bool key val = zap_Bool key val"

definition Error :: "go_error option \<Rightarrow> Field" where
  "Error err = zap_Error err"

definition Any :: "string \<Rightarrow> go_value \<Rightarrow> Field" where
  "Any key val = zap_Any key val"

definition Duration :: "string \<Rightarrow> 64 word \<Rightarrow> Field" where
  "Duration key val = zap_Float64 key val"

definition NewLogger :: "ZapLogger \<Rightarrow> Logger" where
  "NewLogger zapLogger = Logger zapLogger"

text \<open>
  An environment to run the definitions in: ASCII letters are lower-cased, the release
  has no level alias, the engine's two built-in encoders are registered, and one file can
  be opened.
\<close>

definition ascii_lower :: "char \<Rightarrow> char" where
  "ascii_lower c =
     (if 65 \<le> (of_char c :: nat) \<and> (of_char c :: nat) \<le> 90
      then char_of ((of_char c :: nat) + 32) else c)"

definition default_env :: Env where
  "default_env =
     \<lparr>ToLower = map ascii_lower,
      level_alias = (\<lambda>name. None),
      encoder_registered = (\<lambda>name. name = ''json'' \<or> name = ''console''),
      can_open = (\<lambda>path. path = ''/var/log/app.log'')\<rparr>"

section \<open>Properties\<close>

subsection \<open>Facts about the engine and the translation\<close>

text \<open>The fatal level passes every threshold.\<close>

lemma Enabled_Fatal: "Enabled t FatalLevel"
  by (cases t) (simp_all add: Enabled_def)

text \<open>Both branches of the output-path test give the same list.\<close>

lemma outputPaths_verbatim: "outputPaths config = [OutputPath config]"
  by (simp add: outputPaths_def)

lemma opens_stderr: "opens env ''stderr''"
  by (simp add: opens_def)

text \<open>The five level names of the configuration comment parse, each to its own level.\<close>

lemma UnmarshalText_five:
  assumes "name = ''debug'' \<and> lvl = DebugLevel \<or> name = ''info'' \<and> lvl = InfoLevel \<or>
           name = ''warn'' \<and> lvl = WarnLevel \<or> name = ''error'' \<and> lvl = ErrorLevel \<or>
           name = ''fatal'' \<and> lvl = FatalLevel"
  shows "UnmarshalText env name = Inr lvl"
  using assms
  by (elim disjE conjE) (simp_all add: UnmarshalText_def unmarshalText_def)

text \<open>
  The engine builds a logger from the translated configuration when the encoding is
  registered and the output path opens, and fails otherwise.
\<close>

lemma Build_ok:
  assumes "Format config \<noteq> ''''" "encoder_registered env (Format config)"
    "opens env (OutputPath config)"
  shows "Build env (zapConfig level config) [AddCallerSkip 1] =
     Inr \<lparr>threshold = level, encoding = Format config, encoderConfig = encoderConfig_const,
          sinks = [OutputPath config], errorSinks = [''stderr''], coreFields = [],
          addCaller = True, callerSkip = 1\<rparr>"
  using assms
  by (simp add: Build_def newEncoder_def Open_def opens_stderr zapConfig_def outputPaths_verbatim)

lemma Build_fails:
  assumes "\<not> (Format config \<noteq> '''' \<and> encoder_registered env (Format config) \<and>
              opens env (OutputPath config))"
  shows "\<exists>e. Build env (zapConfig level config) [AddCallerSkip 1] = Inl e"
  using assms
  by (auto simp: Build_def newEncoder_def Open_def zapConfig_def outputPaths_verbatim
      opens_stderr)

text \<open>NewWithConfig returns what the engine's construction returns, once the level has parsed.\<close>

lemma NewWithConfig_after_parse:
  assumes "UnmarshalText env (LogLevel config) = Inr level"
  shows "NewWithConfig env config =
           (case Build env (zapConfig level config) [AddCallerSkip 1] of
              Inl e \<Rightarrow> Inl e | Inr z \<Rightarrow> Inr (Logger z))"
  using assms by (simp add: NewWithConfig_def)

lemma zap_With_eq: "zap_With z fs = z\<lparr>coreFields := coreFields z @ fs\<rparr>"
  by (simp add: zap_With_def)

text \<open>
  A logger that skips one frame reports, below one more frame, the head of the stack.
\<close>

lemma reportedCaller_skip_one:
  assumes "addCaller z" "callerSkip z = 1"
  shows "reportedCaller z (site # stack) =
           (case stack of [] \<Rightarrow> None | caller # _ \<Rightarrow> Some caller)"
  using assms by (simp add: reportedCaller_def split: list.splits)

text \<open>The default entry point succeeds wherever the console encoder is registered.\<close>

lemma New_succeeds:
  assumes "encoder_registered env ''console''"
  shows "New env =
     Inr (Logger \<lparr>threshold = InfoLevel, encoding = ''console'',
            encoderConfig = encoderConfig_const, sinks = [''stdout''],
            errorSinks = [''stderr''], coreFields = [], addCaller = True,
            callerSkip = 1\<rparr>)"
  using assms
  by (simp add: New_def NewWithConfig_def UnmarshalText_def unmarshalText_def Build_def
      newEncoder_def Open_def opens_def zapConfig_def outputPaths_def)

subsection \<open>C1: a valid level and the threshold\<close>

text \<open>
  A valid severity string alone does not make NewWithConfig succeed: with the level
  "info" and the encoding "xml", for which no encoder is registered, the engine's
  construction fails and NewWithConfig returns that error.
\<close>

theorem NewWithConfig_valid_level_may_fail:
  "NewWithConfig default_env
     \<lparr>LogLevel = ''info'', OutputPath = ''stdout'', Format = ''xml''\<rparr> =
   Inl (NoEncoderRegistered ''xml'')"
  by (simp add: NewWithConfig_def UnmarshalText_def unmarshalText_def Build_def
      newEncoder_def default_env_def zapConfig_def)

text \<open>
  C1, amended. For every configuration whose severity string is one of debug, info, warn,
  error and fatal: if the encoding is registered and the output destination opens,
  NewWithConfig returns a handle with that level as its threshold; through the handle a
  Debug, Info, Warn or Error call below the threshold leaves the output as it was, a call
  at or above the threshold appends exactly one entry with the call's level, message and
  fields (reporting the site of the call) to the configured destination, and Fatal always
  appends its entry and ends the process. If the encoding is not registered or the
  destination does not open, the engine's construction fails, and NewWithConfig returns
  the engine's error, whichever it is, and no handle.
\<close>

theorem NewWithConfig_honors_threshold:
  assumes name: "LogLevel config = ''debug'' \<and> lvl = DebugLevel \<or>
                 LogLevel config = ''info'' \<and> lvl = InfoLevel \<or>
                 LogLevel config = ''warn'' \<and> lvl = WarnLevel \<or>
                 LogLevel config = ''error'' \<and> lvl = ErrorLevel \<or>
                 LogLevel config = ''fatal'' \<and> lvl = FatalLevel"
  shows "(Format config \<noteq> '''' \<and> encoder_registered env (Format config) \<and>
          opens env (OutputPath config) \<longrightarrow>
          (\<exists>l. NewWithConfig env config = Inr l \<and> threshold (zap l) = lvl \<and>
             (\<forall>msg fs site stack out.
                Logger_Debug l msg fs (site # stack) out =
                  Return (if level_num lvl \<le> level_num DebugLevel
                          then out @ [(OutputPath config,
                                 \<lparr>EntryLevel = DebugLevel, Message = msg, Fields = fs,
                                  Caller = Some site\<rparr>)]
                          else out) \<and>
                Logger_Info l msg fs (site # stack) out =
                  Return (if level_num lvl \<le> level_num InfoLevel
                          then out @ [(OutputPath config,
                                 \<lparr>EntryLevel = InfoLevel, Message = msg, Fields = fs,
                                  Caller = Some site\<rparr>)]
                          else out) \<and>
                Logger_Warn l msg fs (site # stack) out =
                  Return (if level_num lvl \<le> level_num WarnLevel
                          then out @ [(OutputPath config,
                                 \<lparr>EntryLevel = WarnLevel, Message = msg, Fields = fs,
                                  Caller = Some site\<rparr>)]
                          else out) \<and>
                Logger_Error l msg fs (site # stack) out =
                  Return (if level_num lvl \<le> level_num ErrorLevel
                          then out @ [(OutputPath config,
                                 \<lparr>EntryLevel = ErrorLevel, Message = msg, Fields = fs,
                                  Caller = Some site\<rparr>)]
                          else out) \<and>
                Logger_Fatal l msg fs (site # stack) out =
                  Exit 1 (out @ [(OutputPath config,
                                 \<lparr>EntryLevel = FatalLevel, Message = msg, Fields = fs,
                                  Caller = Some site\<rparr>)])))) \<and>
         (\<not> (Format config \<noteq> '''' \<and> encoder_registered env (Format config) \<and>
               opens env (OutputPath config)) \<longrightarrow>
          (\<exists>e. Build env (zapConfig lvl config) [AddCallerSkip 1] = Inl e)) \<and>
         (\<forall>e. Build env (zapConfig lvl config) [AddCallerSkip 1] = Inl e \<longrightarrow>
              NewWithConfig env config = Inl e)"
proof -
  have parse: "UnmarshalText env (LogLevel config) = Inr lvl"
    using name by (rule UnmarshalText_five)
  show ?thesis
  proof (intro conjI impI allI)
    assume ok: "Format config \<noteq> '''' \<and> encoder_registered env (Format config) \<and>
                opens env (OutputPath config)"
    let ?z = "\<lparr>threshold = lvl, encoding = Format config,
            encoderConfig = encoderConfig_const, sinks = [OutputPath config],
            errorSinks = [''stderr''], coreFields = [], addCaller = True,
            callerSkip = 1\<rparr>"
    have build: "Build env (zapConfig lvl config) [AddCallerSkip 1] = Inr ?z"
      using ok by (intro Build_ok) simp_all
    have new: "NewWithConfig env config = Inr (Logger ?z)"
      using build by (simp add: NewWithConfig_after_parse [OF parse])
    have fatal: "level_num lvl \<le> 5"
      using Enabled_Fatal [of lvl] by (simp add: Enabled_def)
    show "\<exists>l. NewWithConfig env config = Inr l \<and> threshold (zap l) = lvl \<and>
             (\<forall>msg fs site stack out.
                Logger_Debug l msg fs (site # stack) out =
                  Return (if level_num lvl \<le> level_num DebugLevel
                          then out @ [(OutputPath config,
                                 \<lparr>EntryLevel = DebugLevel, Message = msg, Fields = fs,
                                  Caller = Some site\<rparr>)]
                          else out) \<and>
                Logger_Info l msg fs (site # stack) out =
                  Return (if level_num lvl \<le> level_num InfoLevel
                          then out @ [(OutputPath config,
                                 \<lparr>EntryLevel = InfoLevel, Message = msg, Fields = fs,
                                  Caller = Some site\<rparr>)]
                          else out) \<and>
                Logger_Warn l msg fs (site # stack) out =
                  Return (if level_num lvl \<le> level_num WarnLevel
                          then out @ [(OutputPath config,
                                 \<lparr>EntryLevel = WarnLevel, Message = msg, Fields = fs,
                                  Caller = Some site\<rparr>)]
                          else out) \<and>
                Logger_Error l msg fs (site # stack) out =
                  Return (if level_num lvl \<le> level_num ErrorLevel
                          then out @ [(OutputPath config,
                                 \<lparr>EntryLevel = ErrorLevel, Message = msg, Fields = fs,
                                  Caller = Some site\<rparr>)]
                          else out) \<and>
                Logger_Fatal l msg fs (site # stack) out =
                  Exit 1 (out @ [(OutputPath config,
                                 \<lparr>EntryLevel = FatalLevel, Message = msg, Fields = fs,
                                  Caller = Some site\<rparr>)]))"
      using fatal
      by (simp add: new Logger_Debug_def Logger_Info_def Logger_Warn_def Logger_Error_def
          Logger_Fatal_def zap_Debug_def zap_Info_def zap_Warn_def zap_Error_log_def
          zap_Fatal_def zap_log_def Enabled_def reportedCaller_def)
  next
    assume "\<not> (Format config \<noteq> '''' \<and> encoder_registered env (Format config) \<and>
                 opens env (OutputPath config))"
    then show "\<exists>e. Build env (zapConfig lvl config) [AddCallerSkip 1] = Inl e"
      by (rule Build_fails)
  next
    fix e
    assume "Build env (zapConfig lvl config) [AddCallerSkip 1] = Inl e"
    then show "NewWithConfig env config = Inl e"
      by (simp add: NewWithConfig_after_parse [OF parse])
  qed
qed

text \<open>
  At the threshold "warn" on stdout: the handle is built, an Info call writes nothing and
  an Error call writes its entry; with no encoding name the engine's error comes back.
\<close>

theorem NewWithConfig_honors_threshold_witness:
  "NewWithConfig default_env \<lparr>LogLevel = ''warn'', OutputPath = ''stdout'', Format = ''json''\<rparr> =
     Inr (Logger \<lparr>threshold = WarnLevel, encoding = ''json'',
            encoderConfig = encoderConfig_const, sinks = [''stdout''],
            errorSinks = [''stderr''], coreFields = [], addCaller = True,
            callerSkip = 1\<rparr>) \<and>
   Logger_Info (Logger \<lparr>threshold = WarnLevel, encoding = ''json'',
            encoderConfig = encoderConfig_const, sinks = [''stdout''],
            errorSinks = [''stderr''], coreFields = [], addCaller = True,
            callerSkip = 1\<rparr>) ''started'' [] [''main.go:12''] [] =
     Return [] \<and>
   Logger_Error (Logger \<lparr>threshold = WarnLevel, encoding = ''json'',
            encoderConfig = encoderConfig_const, sinks = [''stdout''],
            errorSinks = [''stderr''], coreFields = [], addCaller = True,
            callerSkip = 1\<rparr>) ''failed'' [] [''main.go:12''] [] =
     Return [(''stdout'', \<lparr>EntryLevel = ErrorLevel, Message = ''failed'', Fields = [],
                           Caller = Some ''main.go:12''\<rparr>)] \<and>
   NewWithConfig default_env \<lparr>LogLevel = ''warn'', OutputPath = ''stdout'', Format = ''''\<rparr> =
     Inl NoEncoderNameSpecified"
proof -
  let ?c = "\<lparr>LogLevel = ''warn'', OutputPath = ''stdout'', Format = ''json''\<rparr>"
  let ?d = "\<lparr>LogLevel = ''warn'', OutputPath = ''stdout'', Format = ''''\<rparr>"
  let ?L = "Logger \<lparr>threshold = WarnLevel, encoding = ''json'',
            encoderConfig = encoderConfig_const, sinks = [''stdout''],
            errorSinks = [''stderr''], coreFields = [], addCaller = True,
            callerSkip = 1\<rparr>"
  have new: "NewWithConfig default_env ?c = Inr ?L"
    by (simp add: NewWithConfig_def UnmarshalText_def unmarshalText_def Build_def
        newEncoder_def default_env_def zapConfig_def Open_def opens_def outputPaths_def)
  have bd: "Build default_env (zapConfig WarnLevel ?d) [AddCallerSkip 1] =
              Inl NoEncoderNameSpecified"
    by (simp add: Build_def newEncoder_def zapConfig_def)
  have c: "LogLevel ?c = ''debug'' \<and> WarnLevel = DebugLevel \<or>
           LogLevel ?c = ''info'' \<and> WarnLevel = InfoLevel \<or>
           LogLevel ?c = ''warn'' \<and> WarnLevel = WarnLevel \<or>
           LogLevel ?c = ''error'' \<and> WarnLevel = ErrorLevel \<or>
           LogLevel ?c = ''fatal'' \<and> WarnLevel = FatalLevel" by simp
  have d: "LogLevel ?d = ''debug'' \<and> WarnLevel = DebugLevel \<or>
           LogLevel ?d = ''info'' \<and> WarnLevel = InfoLevel \<or>
           LogLevel ?d = ''warn'' \<and> WarnLevel = WarnLevel \<or>
           LogLevel ?d = ''error'' \<and> WarnLevel = ErrorLevel \<or>
           LogLevel ?d = ''fatal'' \<and> WarnLevel = FatalLevel" by simp
  have ok: "Format ?c \<noteq> '''' \<and> encoder_registered default_env (Format ?c) \<and>
            opens default_env (OutputPath ?c)"
    by (simp add: default_env_def opens_def)
  have "NewWithConfig default_env ?d = Inl NoEncoderNameSpecified"
    using NewWithConfig_honors_threshold [OF d, of default_env] bd by simp
  then show ?thesis
    using NewWithConfig_honors_threshold [OF c, of default_env] ok by (simp add: new)
qed

subsection \<open>C2: the level validation\<close>

text \<open>
  The severity string "panic" is outside the set debug, info, warn, error, fatal, yet the
  engine's parser knows it as a level and NewWithConfig returns a handle.
\<close>

theorem NewWithConfig_accepts_panic_level:
  "NewWithConfig default_env
     \<lparr>LogLevel = ''panic'', OutputPath = ''stdout'', Format = ''console''\<rparr> =
   Inr (Logger \<lparr>threshold = PanicLevel, encoding = ''console'',
          encoderConfig = encoderConfig_const, sinks = [''stdout''],
          errorSinks = [''stderr''], coreFields = [], addCaller = True,
          callerSkip = 1\<rparr>)"
  by (simp add: NewWithConfig_def UnmarshalText_def unmarshalText_def Build_def
      newEncoder_def default_env_def zapConfig_def Open_def opens_def outputPaths_def)

text \<open>
  C2, amended. The engine's parser, not the set of five names, decides which severity
  strings are valid. For every severity string that is not, as written or lower-cased, a
  spelling of one of the engine's seven levels (debug, info, warn, error, dpanic, panic,
  fatal, in lower or upper case), the empty string or an alias of the linked release,
  NewWithConfig fails with the error "invalid log level: " followed by the parser's
  error, which is "unrecognized level" with the string; it returns no handle, whatever
  the output destination and the format are. Whenever the parser rejects a string, that
  is the error returned. The strings dpanic and panic, the empty string (read as info)
  and the upper-case spellings are accepted: for them NewWithConfig goes on to the
  engine's construction and returns its result.
\<close>

theorem NewWithConfig_level_validation:
  "(LogLevel config \<notin> {''debug'', ''DEBUG'', ''info'', ''INFO'', '''', ''warn'', ''WARN'',
        ''error'', ''ERROR'', ''dpanic'', ''DPANIC'', ''panic'', ''PANIC'', ''fatal'', ''FATAL''} \<and>
    ToLower env (LogLevel config) \<notin> {''debug'', ''DEBUG'', ''info'', ''INFO'', '''', ''warn'',
        ''WARN'', ''error'', ''ERROR'', ''dpanic'', ''DPANIC'', ''panic'', ''PANIC'', ''fatal'',
        ''FATAL''} \<and>
    level_alias env (LogLevel config) = None \<and>
    level_alias env (ToLower env (LogLevel config)) = None \<longrightarrow>
      NewWithConfig env config =
        Inl (Errorf ''invalid log level: '' (UnrecognizedLevel (LogLevel config)))) \<and>
   (\<forall>d. UnmarshalText env (LogLevel config) = Inl d \<longrightarrow>
      d = UnrecognizedLevel (LogLevel config) \<and>
      NewWithConfig env config = Inl (Errorf ''invalid log level: '' d)) \<and>
   (LogLevel config = ''dpanic'' \<and> level = DPanicLevel \<or>
    LogLevel config = ''panic'' \<and> level = PanicLevel \<or>
    LogLevel config = '''' \<and> level = InfoLevel \<or>
    LogLevel config = ''DEBUG'' \<and> level = DebugLevel \<or>
    LogLevel config = ''INFO'' \<and> level = InfoLevel \<or>
    LogLevel config = ''WARN'' \<and> level = WarnLevel \<or>
    LogLevel config = ''ERROR'' \<and> level = ErrorLevel \<or>
    LogLevel config = ''DPANIC'' \<and> level = DPanicLevel \<or>
    LogLevel config = ''PANIC'' \<and> level = PanicLevel \<or>
    LogLevel config = ''FATAL'' \<and> level = FatalLevel \<longrightarrow>
      UnmarshalText env (LogLevel config) = Inr level \<and>
      NewWithConfig env config =
        (case Build env (zapConfig level config) [AddCallerSkip 1] of
           Inl e \<Rightarrow> Inl e | Inr z \<Rightarrow> Inr (Logger z)))"
proof (intro conjI impI allI)
  assume out: "LogLevel config \<notin> {''debug'', ''DEBUG'', ''info'', ''INFO'', '''', ''warn'',
        ''WARN'', ''error'', ''ERROR'', ''dpanic'', ''DPANIC'', ''panic'', ''PANIC'', ''fatal'',
        ''FATAL''} \<and>
    ToLower env (LogLevel config) \<notin> {''debug'', ''DEBUG'', ''info'', ''INFO'', '''', ''warn'',
        ''WARN'', ''error'', ''ERROR'', ''dpanic'', ''DPANIC'', ''panic'', ''PANIC'', ''fatal'',
        ''FATAL''} \<and>
    level_alias env (LogLevel config) = None \<and>
    level_alias env (ToLower env (LogLevel config)) = None"
  then have a: "unmarshalText env (LogLevel config) = None"
    by (simp add: unmarshalText_def)
  from out have b: "unmarshalText env (ToLower env (LogLevel config)) = None"
    by (simp add: unmarshalText_def)
  show "NewWithConfig env config =
        Inl (Errorf ''invalid log level: '' (UnrecognizedLevel (LogLevel config)))"
    by (simp add: NewWithConfig_def UnmarshalText_def a b)
next
  fix d
  assume r: "UnmarshalText env (LogLevel config) = Inl d"
  then show "d = UnrecognizedLevel (LogLevel config)"
    unfolding UnmarshalText_def by (simp split: option.splits)
  from r show "NewWithConfig env config = Inl (Errorf ''invalid log level: '' d)"
    by (simp add: NewWithConfig_def)
next
  assume acc: "LogLevel config = ''dpanic'' \<and> level = DPanicLevel \<or>
    LogLevel config = ''panic'' \<and> level = PanicLevel \<or>
    LogLevel config = '''' \<and> level = InfoLevel \<or>
    LogLevel config = ''DEBUG'' \<and> level = DebugLevel \<or>
    LogLevel config = ''INFO'' \<and> level = InfoLevel \<or>
    LogLevel config = ''WARN'' \<and> level = WarnLevel \<or>
    LogLevel config = ''ERROR'' \<and> level = ErrorLevel \<or>
    LogLevel config = ''DPANIC'' \<and> level = DPanicLevel \<or>
    LogLevel config = ''PANIC'' \<and> level = PanicLevel \<or>
    LogLevel config = ''FATAL'' \<and> level = FatalLevel"
  then show p: "UnmarshalText env (LogLevel config) = Inr level"
    by (elim disjE conjE) (simp_all add: UnmarshalText_def unmarshalText_def)
  show "NewWithConfig env config =
        (case Build env (zapConfig level config) [AddCallerSkip 1] of
           Inl e \<Rightarrow> Inl e | Inr z \<Rightarrow> Inr (Logger z))"
    by (rule NewWithConfig_after_parse [OF p])
qed

text \<open>
  "verbose" is rejected; "DPANIC" and the empty string are accepted, and the engine then
  builds the handle.
\<close>

theorem NewWithConfig_level_validation_witness:
  "NewWithConfig default_env
     \<lparr>LogLevel = ''verbose'', OutputPath = ''stdout'', Format = ''json''\<rparr> =
     Inl (Errorf ''invalid log level: '' (UnrecognizedLevel ''verbose'')) \<and>
   NewWithConfig default_env
     \<lparr>LogLevel = ''DPANIC'', OutputPath = ''stdout'', Format = ''json''\<rparr> =
     Inr (Logger \<lparr>threshold = DPanicLevel, encoding = ''json'',
            encoderConfig = encoderConfig_const, sinks = [''stdout''],
            errorSinks = [''stderr''], coreFields = [], addCaller = True,
            callerSkip = 1\<rparr>) \<and>
   NewWithConfig default_env
     \<lparr>LogLevel = '''', OutputPath = ''stdout'', Format = ''json''\<rparr> =
     Inr (Logger \<lparr>threshold = InfoLevel, encoding = ''json'',
            encoderConfig = encoderConfig_const, sinks = [''stdout''],
            errorSinks = [''stderr''], coreFields = [], addCaller = True,
            callerSkip = 1\<rparr>)"
proof -
  let ?v = "\<lparr>LogLevel = ''verbose'', OutputPath = ''stdout'', Format = ''json''\<rparr>"
  let ?p = "\<lparr>LogLevel = ''DPANIC'', OutputPath = ''stdout'', Format = ''json''\<rparr>"
  let ?e = "\<lparr>LogLevel = '''', OutputPath = ''stdout'', Format = ''json''\<rparr>"
  have low: "ToLower default_env ''verbose'' = ''verbose''"
    by code_simp
  have al: "level_alias default_env ''verbose'' = None"
    by (simp add: default_env_def)
  have v: "NewWithConfig default_env ?v =
             Inl (Errorf ''invalid log level: '' (UnrecognizedLevel ''verbose''))"
    using NewWithConfig_level_validation [where config = "?v" and env = default_env]
    by (simp add: low al)
  have bp: "Build default_env (zapConfig DPanicLevel ?p) [AddCallerSkip 1] =
              Inr \<lparr>threshold = DPanicLevel, encoding = ''json'',
                   encoderConfig = encoderConfig_const, sinks = [''stdout''],
                   errorSinks = [''stderr''], coreFields = [], addCaller = True,
                   callerSkip = 1\<rparr>"
    by (simp add: Build_def newEncoder_def default_env_def zapConfig_def Open_def opens_def
        outputPaths_def)
  have be: "Build default_env (zapConfig InfoLevel ?e) [AddCallerSkip 1] =
              Inr \<lparr>threshold = InfoLevel, encoding = ''json'',
                   encoderConfig = encoderConfig_const, sinks = [''stdout''],
                   errorSinks = [''stderr''], coreFields = [], addCaller = True,
                   callerSkip = 1\<rparr>"
    by (simp add: Build_def newEncoder_def default_env_def zapConfig_def Open_def opens_def
        outputPaths_def)
  have p: "NewWithConfig default_env ?p =
             (case Build default_env (zapConfig DPanicLevel ?p) [AddCallerSkip 1] of
                Inl e \<Rightarrow> Inl e | Inr z \<Rightarrow> Inr (Logger z))"
    using NewWithConfig_level_validation
      [where config = "?p" and env = default_env and level = DPanicLevel]
    by simp
  have e: "NewWithConfig default_env ?e =
             (case Build default_env (zapConfig InfoLevel ?e) [AddCallerSkip 1] of
                Inl e \<Rightarrow> Inl e | Inr z \<Rightarrow> Inr (Logger z))"
    using NewWithConfig_level_validation
      [where config = "?e" and env = default_env and level = InfoLevel]
    by simp
  show ?thesis
    unfolding v p e bp be by simp
qed

subsection \<open>C3: Fatalf\<close>

text \<open>
  C3. For every handle, format string and error: Fatalf with a non-nil error is the
  engine's Fatal call, made from Fatalf's own body, with the format as the message and
  the error as a field under the key "error"; it appends that entry at the fatal level
  to every sink of the handle and ends the process with exit code 1. Fatalf with a nil
  error ends the process with exit code 1 and leaves the output as it was.
\<close>

theorem Fatalf_logs_then_exits:
  "Logger_Fatalf l format (Some e) stack out =
     Exit 1 (out @ map (\<lambda>p. (p, \<lparr>EntryLevel = FatalLevel, Message = format,
                                  Fields = coreFields (zap l) @ [Field ''error'' (ErrorType e)],
                                  Caller = reportedCaller (zap l)
                                             (''logger/logger.go:110'' # stack)\<rparr>))
                       (sinks (zap l))) \<and>
   Logger_Fatalf l format (Some e) stack out =
     zap_Fatal (zap l) format [zap_Error (Some e)] (''logger/logger.go:110'' # stack) out \<and>
   Logger_Fatalf l format None stack out = Exit 1 out"
  using Enabled_Fatal [of "threshold (zap l)"]
  by (simp add: Logger_Fatalf_def zap_Fatal_def zap_log_def
      zap_Error_def zap_NamedError_def and_then_def os_Exit_def)

subsection \<open>C4: the default entry point\<close>

text \<open>
  C4. \<open>New()\<close> is \<open>NewWithConfig\<close> at the configuration info / stdout / console: the same
  handle or the same error, in every environment.
\<close>

theorem New_is_NewWithConfig_default:
  "New env =
     NewWithConfig env \<lparr>LogLevel = ''info'', OutputPath = ''stdout'', Format = ''console''\<rparr>"
  by (simp add: New_def)

subsection \<open>C5 and C10: the output destination\<close>

text \<open>
  C5. For every configuration whose level parses and whose encoding the engine accepts:
  with the output destination "stdout" NewWithConfig returns a handle that writes to the
  engine's stdout sink; with any other string it hands the string unchanged to the engine
  as the only output path, without looking at it: the result is a handle writing to that
  path when the engine can open it, and the engine's open error when it cannot.
\<close>

theorem output_destination_verbatim:
  assumes parse: "UnmarshalText env (LogLevel config) = Inr level"
    and enc: "newEncoder env (Format config) = Inr name"
  shows "(OutputPath config = ''stdout'' \<longrightarrow>
            NewWithConfig env config =
              Inr (Logger \<lparr>threshold = level, encoding = name,
                     encoderConfig = encoderConfig_const, sinks = [''stdout''],
                     errorSinks = [''stderr''], coreFields = [], addCaller = True,
                     callerSkip = 1\<rparr>)) \<and>
         (OutputPath config \<noteq> ''stdout'' \<longrightarrow>
            OutputPaths (zapConfig level config) = [OutputPath config] \<and>
            NewWithConfig env config =
              (if opens env (OutputPath config)
               then Inr (Logger \<lparr>threshold = level, encoding = name,
                      encoderConfig = encoderConfig_const, sinks = [OutputPath config],
                      errorSinks = [''stderr''], coreFields = [], addCaller = True,
                      callerSkip = 1\<rparr>)
               else Inl (OpenFailed [OutputPath config])))"
proof -
  have "NewWithConfig env config =
          (if opens env (OutputPath config)
           then Inr (Logger \<lparr>threshold = level, encoding = name,
                  encoderConfig = encoderConfig_const, sinks = [OutputPath config],
                  errorSinks = [''stderr''], coreFields = [], addCaller = True,
                  callerSkip = 1\<rparr>)
           else Inl (OpenFailed [OutputPath config]))"
    using enc
    by (simp add: NewWithConfig_def parse Build_def Open_def opens_stderr zapConfig_def
        outputPaths_verbatim)
  moreover have "opens env ''stdout''" by (simp add: opens_def)
  moreover have "OutputPaths (zapConfig level config) = [OutputPath config]"
    by (simp add: zapConfig_def outputPaths_verbatim)
  ultimately show ?thesis by simp
qed

text \<open>The three cases: stdout, a file that opens, a file that does not.\<close>

theorem output_destination_verbatim_witness:
  "NewWithConfig default_env
     \<lparr>LogLevel = ''debug'', OutputPath = ''stdout'', Format = ''console''\<rparr> =
     Inr (Logger \<lparr>threshold = DebugLevel, encoding = ''console'',
            encoderConfig = encoderConfig_const, sinks = [''stdout''],
            errorSinks = [''stderr''], coreFields = [], addCaller = True,
            callerSkip = 1\<rparr>) \<and>
   NewWithConfig default_env
     \<lparr>LogLevel = ''debug'', OutputPath = ''/var/log/app.log'', Format = ''console''\<rparr> =
     Inr (Logger \<lparr>threshold = DebugLevel, encoding = ''console'',
            encoderConfig = encoderConfig_const, sinks = [''/var/log/app.log''],
            errorSinks = [''stderr''], coreFields = [], addCaller = True,
            callerSkip = 1\<rparr>) \<and>
   NewWithConfig default_env
     \<lparr>LogLevel = ''debug'', OutputPath = ''/nonexistent/app.log'', Format = ''console''\<rparr> =
     Inl (OpenFailed [''/nonexistent/app.log''])"
proof -
  let ?a = "\<lparr>LogLevel = ''debug'', OutputPath = ''stdout'', Format = ''console''\<rparr>"
  let ?b = "\<lparr>LogLevel = ''debug'', OutputPath = ''/var/log/app.log'', Format = ''console''\<rparr>"
  let ?c = "\<lparr>LogLevel = ''debug'', OutputPath = ''/nonexistent/app.log'', Format = ''console''\<rparr>"
  have pa: "UnmarshalText default_env (LogLevel ?a) = Inr DebugLevel"
    by (simp add: UnmarshalText_def unmarshalText_def)
  have pb: "UnmarshalText default_env (LogLevel ?b) = Inr DebugLevel"
    by (simp add: UnmarshalText_def unmarshalText_def)
  have pc: "UnmarshalText default_env (LogLevel ?c) = Inr DebugLevel"
    by (simp add: UnmarshalText_def unmarshalText_def)
  have ea: "newEncoder default_env (Format ?a) = Inr ''console''"
    by (simp add: newEncoder_def default_env_def)
  have eb: "newEncoder default_env (Format ?b) = Inr ''console''"
    by (simp add: newEncoder_def default_env_def)
  have ec: "newEncoder default_env (Format ?c) = Inr ''console''"
    by (simp add: newEncoder_def default_env_def)
  have ob: "opens default_env ''/var/log/app.log''"
    by (simp add: opens_def default_env_def)
  have oc: "\<not> opens default_env ''/nonexistent/app.log''"
    by (simp add: opens_def default_env_def)
  show ?thesis
    using output_destination_verbatim [OF pa ea] output_destination_verbatim [OF pb eb]
      output_destination_verbatim [OF pc ec] ob oc
    by simp
qed

text \<open>
  C10. For every output destination other than exactly "stdout", the empty string
  included, the translation hands the string unchanged to the engine as the only output
  path; once the level has parsed, NewWithConfig returns whatever the engine's
  construction returns, so every failure for such inputs is an engine construction
  failure.
\<close>

theorem other_output_path_reaches_engine:
  assumes parse: "UnmarshalText env (LogLevel config) = Inr level"
    and other: "OutputPath config \<noteq> ''stdout''"
  shows "OutputPaths (zapConfig level config) = [OutputPath config] \<and>
         NewWithConfig env config =
           (case Build env (zapConfig level config) [AddCallerSkip 1] of
              Inl e \<Rightarrow> Inl e | Inr z \<Rightarrow> Inr (Logger z)) \<and>
         (\<forall>e. NewWithConfig env config = Inl e \<longrightarrow>
              Build env (zapConfig level config) [AddCallerSkip 1] = Inl e)"
proof -
  have a: "OutputPaths (zapConfig level config) = [OutputPath config]"
    using other by (simp add: zapConfig_def outputPaths_def)
  have b: "NewWithConfig env config =
           (case Build env (zapConfig level config) [AddCallerSkip 1] of
              Inl e \<Rightarrow> Inl e | Inr z \<Rightarrow> Inr (Logger z))"
    by (simp add: NewWithConfig_def parse)
  have c: "\<forall>e. NewWithConfig env config = Inl e \<longrightarrow>
              Build env (zapConfig level config) [AddCallerSkip 1] = Inl e"
    unfolding b by (simp split: sum.splits)
  from a b c show ?thesis by blast
qed

text \<open>The empty output path: it is the engine, unable to open it, that fails.\<close>

theorem other_output_path_reaches_engine_witness:
  "OutputPaths (zapConfig InfoLevel
     \<lparr>LogLevel = ''info'', OutputPath = '''', Format = ''json''\<rparr>) = [''''] \<and>
   Build default_env (zapConfig InfoLevel
     \<lparr>LogLevel = ''info'', OutputPath = '''', Format = ''json''\<rparr>) [AddCallerSkip 1] =
     Inl (OpenFailed ['''']) \<and>
   NewWithConfig default_env \<lparr>LogLevel = ''info'', OutputPath = '''', Format = ''json''\<rparr> =
     Inl (OpenFailed [''''])"
proof -
  let ?c = "\<lparr>LogLevel = ''info'', OutputPath = '''', Format = ''json''\<rparr>"
  have p: "UnmarshalText default_env (LogLevel ?c) = Inr InfoLevel"
    by (simp add: UnmarshalText_def unmarshalText_def)
  have q: "OutputPath ?c \<noteq> ''stdout''" by simp
  have b: "Build default_env (zapConfig InfoLevel ?c) [AddCallerSkip 1] = Inl (OpenFailed [''''])"
    by (simp add: Build_def newEncoder_def Open_def opens_def zapConfig_def outputPaths_def
        default_env_def)
  from other_output_path_reaches_engine [OF p q] have
    "OutputPaths (zapConfig InfoLevel ?c) = [OutputPath ?c]"
    "NewWithConfig default_env ?c =
       (case Build default_env (zapConfig InfoLevel ?c) [AddCallerSkip 1] of
          Inl e \<Rightarrow> Inl e | Inr z \<Rightarrow> Inr (Logger z))"
    by simp_all
  then show ?thesis using b by simp
qed

subsection \<open>C6: handles with added fields\<close>

text \<open>
  C6. For every handle and every list of fields, WithFields returns a handle whose engine
  logger is the original one with the fields appended to those it already carries; its
  threshold, sinks and caller settings are the original's. Every entry written through
  the new handle carries the original's fields, then the added ones, then the call's. The
  original handle is a value that WithFields does not change: an entry written through it
  carries its own fields and the call's, and none of the added ones.
\<close>

theorem WithFields_child_and_parent:
  "zap (Logger_WithFields l fs) = (zap l)\<lparr>coreFields := coreFields (zap l) @ fs\<rparr> \<and>
   Logger_Debug (Logger_WithFields l fs) msg gs stack out =
     Return (if Enabled (threshold (zap l)) DebugLevel
             then out @ map (\<lambda>p. (p, \<lparr>EntryLevel = DebugLevel, Message = msg,
                       Fields = coreFields (zap l) @ fs @ gs,
                       Caller = reportedCaller (zap l) (''logger/logger.go:84'' # stack)\<rparr>))
                    (sinks (zap l))
             else out) \<and>
   Logger_Info (Logger_WithFields l fs) msg gs stack out =
     Return (if Enabled (threshold (zap l)) InfoLevel
             then out @ map (\<lambda>p. (p, \<lparr>EntryLevel = InfoLevel, Message = msg,
                       Fields = coreFields (zap l) @ fs @ gs,
                       Caller = reportedCaller (zap l) (''logger/logger.go:89'' # stack)\<rparr>))
                    (sinks (zap l))
             else out) \<and>
   Logger_Warn (Logger_WithFields l fs) msg gs stack out =
     Return (if Enabled (threshold (zap l)) WarnLevel
             then out @ map (\<lambda>p. (p, \<lparr>EntryLevel = WarnLevel, Message = msg,
                       Fields = coreFields (zap l) @ fs @ gs,
                       Caller = reportedCaller (zap l) (''logger/logger.go:94'' # stack)\<rparr>))
                    (sinks (zap l))
             else out) \<and>
   Logger_Error (Logger_WithFields l fs) msg gs stack out =
     Return (if Enabled (threshold (zap l)) ErrorLevel
             then out @ map (\<lambda>p. (p, \<lparr>EntryLevel = ErrorLevel, Message = msg,
                       Fields = coreFields (zap l) @ fs @ gs,
                       Caller = reportedCaller (zap l) (''logger/logger.go:99'' # stack)\<rparr>))
                    (sinks (zap l))
             else out) \<and>
   Logger_Fatal (Logger_WithFields l fs) msg gs stack out =
     Exit 1 (out @ map (\<lambda>p. (p, \<lparr>EntryLevel = FatalLevel, Message = msg,
                       Fields = coreFields (zap l) @ fs @ gs,
                       Caller = reportedCaller (zap l) (''logger/logger.go:104'' # stack)\<rparr>))
                    (sinks (zap l))) \<and>
   Logger_Debug l msg gs stack out =
     Return (if Enabled (threshold (zap l)) DebugLevel
             then out @ map (\<lambda>p. (p, \<lparr>EntryLevel = DebugLevel, Message = msg,
                       Fields = coreFields (zap l) @ gs,
                       Caller = reportedCaller (zap l) (''logger/logger.go:84'' # stack)\<rparr>))
                    (sinks (zap l))
             else out) \<and>
   Logger_Info l msg gs stack out =
     Return (if Enabled (threshold (zap l)) InfoLevel
             then out @ map (\<lambda>p. (p, \<lparr>EntryLevel = InfoLevel, Message = msg,
                       Fields = coreFields (zap l) @ gs,
                       Caller = reportedCaller (zap l) (''logger/logger.go:89'' # stack)\<rparr>))
                    (sinks (zap l))
             else out) \<and>
   Logger_Warn l msg gs stack out =
     Return (if Enabled (threshold (zap l)) WarnLevel
             then out @ map (\<lambda>p. (p, \<lparr>EntryLevel = WarnLevel, Message = msg,
                       Fields = coreFields (zap l) @ gs,
                       Caller = reportedCaller (zap l) (''logger/logger.go:94'' # stack)\<rparr>))
                    (sinks (zap l))
             else out) \<and>
   Logger_Error l msg gs stack out =
     Return (if Enabled (threshold (zap l)) ErrorLevel
             then out @ map (\<lambda>p. (p, \<lparr>EntryLevel = ErrorLevel, Message = msg,
                       Fields = coreFields (zap l) @ gs,
                       Caller = reportedCaller (zap l) (''logger/logger.go:99'' # stack)\<rparr>))
                    (sinks (zap l))
             else out) \<and>
   Logger_Fatal l msg gs stack out =
     Exit 1 (out @ map (\<lambda>p. (p, \<lparr>EntryLevel = FatalLevel, Message = msg,
                       Fields = coreFields (zap l) @ gs,
                       Caller = reportedCaller (zap l) (''logger/logger.go:104'' # stack)\<rparr>))
                    (sinks (zap l)))"
  using Enabled_Fatal [of "threshold (zap l)"]
  by (simp add: Logger_WithFields_def zap_With_eq Logger_Debug_def Logger_Info_def
      Logger_Warn_def Logger_Error_def Logger_Fatal_def zap_Debug_def zap_Info_def
      zap_Warn_def zap_Error_log_def zap_Fatal_def zap_log_def reportedCaller_def)

subsection \<open>C7: the severity methods forward\<close>

text \<open>
  The facade call is not observationally equal to the direct engine call. On the handle
  that \<open>New()\<close> returns, an Info call at main.go:239, from a function called at
  main.go:398, writes an entry that reports the caller main.go:239; the engine's Info
  called directly on the wrapped logger at the same site writes an entry that reports
  main.go:398.
\<close>

theorem facade_call_differs_in_caller:
  "New default_env =
     Inr (Logger \<lparr>threshold = InfoLevel, encoding = ''console'',
            encoderConfig = encoderConfig_const, sinks = [''stdout''],
            errorSinks = [''stderr''], coreFields = [], addCaller = True,
            callerSkip = 1\<rparr>) \<and>
   Logger_Info (Logger \<lparr>threshold = InfoLevel, encoding = ''console'',
            encoderConfig = encoderConfig_const, sinks = [''stdout''],
            errorSinks = [''stderr''], coreFields = [], addCaller = True,
            callerSkip = 1\<rparr>) ''hello'' [] [''main.go:239'', ''main.go:398''] [] =
     Return [(''stdout'', \<lparr>EntryLevel = InfoLevel, Message = ''hello'', Fields = [],
                           Caller = Some ''main.go:239''\<rparr>)] \<and>
   zap_Info \<lparr>threshold = InfoLevel, encoding = ''console'',
            encoderConfig = encoderConfig_const, sinks = [''stdout''],
            errorSinks = [''stderr''], coreFields = [], addCaller = True,
            callerSkip = 1\<rparr> ''hello'' [] [''main.go:239'', ''main.go:398''] [] =
     Return [(''stdout'', \<lparr>EntryLevel = InfoLevel, Message = ''hello'', Fields = [],
                           Caller = Some ''main.go:398''\<rparr>)]"
  by (simp add: New_succeeds default_env_def Logger_Info_def zap_Info_def zap_log_def
      Enabled_def reportedCaller_def)

text \<open>
  C7, amended. For every handle, message, list of fields, call stack and output so far,
  each of Debug, Info, Warn and Error is the engine's method of the same name on the
  wrapped logger, called from the facade method's own body with the same message and the
  same fields; nothing is buffered or transformed. The facade call and the direct engine
  call from the same site return, and write, under the same threshold and to the same
  sinks, entries with the same level, message and fields; the entries differ only in the
  caller they report, which the engine looks up above the facade's line for the one and
  above the call site for the other. On a handle that skips one frame, as those built by
  NewWithConfig do, the facade call reports the site of the call and the direct engine
  call reports the caller of that site.
\<close>

theorem facade_forwards_to_engine:
  "Logger_Debug l msg fs stack out =
     zap_Debug (zap l) msg fs (''logger/logger.go:84'' # stack) out \<and>
   Logger_Info l msg fs stack out =
     zap_Info (zap l) msg fs (''logger/logger.go:89'' # stack) out \<and>
   Logger_Warn l msg fs stack out =
     zap_Warn (zap l) msg fs (''logger/logger.go:94'' # stack) out \<and>
   Logger_Error l msg fs stack out =
     zap_Error_log (zap l) msg fs (''logger/logger.go:99'' # stack) out \<and>
   Logger_Debug l msg fs stack out =
     Return (if Enabled (threshold (zap l)) DebugLevel
             then out @ map (\<lambda>p. (p, \<lparr>EntryLevel = DebugLevel, Message = msg,
                       Fields = coreFields (zap l) @ fs,
                       Caller = reportedCaller (zap l) (''logger/logger.go:84'' # stack)\<rparr>))
                    (sinks (zap l))
             else out) \<and>
   zap_Debug (zap l) msg fs stack out =
     Return (if Enabled (threshold (zap l)) DebugLevel
             then out @ map (\<lambda>p. (p, \<lparr>EntryLevel = DebugLevel, Message = msg,
                       Fields = coreFields (zap l) @ fs,
                       Caller = reportedCaller (zap l) stack\<rparr>))
                    (sinks (zap l))
             else out) \<and>
   Logger_Info l msg fs stack out =
     Return (if Enabled (threshold (zap l)) InfoLevel
             then out @ map (\<lambda>p. (p, \<lparr>EntryLevel = InfoLevel, Message = msg,
                       Fields = coreFields (zap l) @ fs,
                       Caller = reportedCaller (zap l) (''logger/logger.go:89'' # stack)\<rparr>))
                    (sinks (zap l))
             else out) \<and>
   zap_Info (zap l) msg fs stack out =
     Return (if Enabled (threshold (zap l)) InfoLevel
             then out @ map (\<lambda>p. (p, \<lparr>EntryLevel = InfoLevel, Message = msg,
                       Fields = coreFields (zap l) @ fs,
                       Caller = reportedCaller (zap l) stack\<rparr>))
                    (sinks (zap l))
             else out) \<and>
   Logger_Warn l msg fs stack out =
     Return (if Enabled (threshold (zap l)) WarnLevel
             then out @ map (\<lambda>p. (p, \<lparr>EntryLevel = WarnLevel, Message = msg,
                       Fields = coreFields (zap l) @ fs,
                       Caller = reportedCaller (zap l) (''logger/logger.go:94'' # stack)\<rparr>))
                    (sinks (zap l))
             else out) \<and>
   zap_Warn (zap l) msg fs stack out =
     Return (if Enabled (threshold (zap l)) WarnLevel
             then out @ map (\<lambda>p. (p, \<lparr>EntryLevel = WarnLevel, Message = msg,
                       Fields = coreFields (zap l) @ fs,
                       Caller = reportedCaller (zap l) stack\<rparr>))
                    (sinks (zap l))
             else out) \<and>
   Logger_Error l msg fs stack out =
     Return (if Enabled (threshold (zap l)) ErrorLevel
             then out @ map (\<lambda>p. (p, \<lparr>EntryLevel = ErrorLevel, Message = msg,
                       Fields = coreFields (zap l) @ fs,
                       Caller = reportedCaller (zap l) (''logger/logger.go:99'' # stack)\<rparr>))
                    (sinks (zap l))
             else out) \<and>
   zap_Error_log (zap l) msg fs stack out =
     Return (if Enabled (threshold (zap l)) ErrorLevel
             then out @ map (\<lambda>p. (p, \<lparr>EntryLevel = ErrorLevel, Message = msg,
                       Fields = coreFields (zap l) @ fs,
                       Caller = reportedCaller (zap l) stack\<rparr>))
                    (sinks (zap l))
             else out) \<and>
   (addCaller (zap l) \<and> callerSkip (zap l) = 1 \<longrightarrow>
      (\<forall>line site above.
         reportedCaller (zap l) (line # site # above) = Some site \<and>
         reportedCaller (zap l) (site # above) =
           (case above of [] \<Rightarrow> None | caller # _ \<Rightarrow> Some caller)))"
  by (simp add: Logger_Debug_def Logger_Info_def Logger_Warn_def Logger_Error_def
      zap_Debug_def zap_Info_def zap_Warn_def zap_Error_log_def zap_log_def
      reportedCaller_def split: list.splits)

text \<open>
  On a handle that skips one frame: a Warn call at worker.go:40, reached from
  main.go:17, reports worker.go:40; the engine's Warn called there directly reports
  main.go:17.
\<close>

theorem facade_forwards_to_engine_witness:
  "Logger_Warn (Logger \<lparr>threshold = DebugLevel, encoding = ''json'',
            encoderConfig = encoderConfig_const, sinks = [''/var/log/app.log''],
            errorSinks = [''stderr''], coreFields = [], addCaller = True,
            callerSkip = 1\<rparr>) ''slow'' [] [''worker.go:40'', ''main.go:17''] [] =
     Return [(''/var/log/app.log'',
              \<lparr>EntryLevel = WarnLevel, Message = ''slow'', Fields = [],
               Caller = Some ''worker.go:40''\<rparr>)] \<and>
   zap_Warn \<lparr>threshold = DebugLevel, encoding = ''json'',
            encoderConfig = encoderConfig_const, sinks = [''/var/log/app.log''],
            errorSinks = [''stderr''], coreFields = [], addCaller = True,
            callerSkip = 1\<rparr> ''slow'' [] [''worker.go:40'', ''main.go:17''] [] =
     Return [(''/var/log/app.log'',
              \<lparr>EntryLevel = WarnLevel, Message = ''slow'', Fields = [],
               Caller = Some ''main.go:17''\<rparr>)]"
proof -
  let ?z = "\<lparr>threshold = DebugLevel, encoding = ''json'',
            encoderConfig = encoderConfig_const, sinks = [''/var/log/app.log''],
            errorSinks = [''stderr''], coreFields = [], addCaller = True,
            callerSkip = 1\<rparr>"
  have h: "addCaller (zap (Logger ?z)) \<and> callerSkip (zap (Logger ?z)) = 1" by simp
  have e: "Enabled (threshold ?z) WarnLevel" by (simp add: Enabled_def)
  note t = facade_forwards_to_engine
    [where l = "Logger ?z" and msg = "''slow''" and fs = "[]"
       and stack = "[''worker.go:40'', ''main.go:17'']" and out = "[]"]
  note w = t [THEN conjunct2, THEN conjunct2, THEN conjunct2, THEN conjunct2,
      THEN conjunct2, THEN conjunct2, THEN conjunct2, THEN conjunct2, THEN conjunct1]
  note z = t [THEN conjunct2, THEN conjunct2, THEN conjunct2, THEN conjunct2,
      THEN conjunct2, THEN conjunct2, THEN conjunct2, THEN conjunct2, THEN conjunct2,
      THEN conjunct1]
  note c = t [THEN conjunct2, THEN conjunct2, THEN conjunct2, THEN conjunct2,
      THEN conjunct2, THEN conjunct2, THEN conjunct2, THEN conjunct2, THEN conjunct2,
      THEN conjunct2, THEN conjunct2, THEN conjunct2, THEN mp, OF h]
  show ?thesis
    using w z c e by simp
qed

subsection \<open>C8 and C9: the field constructors\<close>

text \<open>
  Error at the nil error does not make a key/value descriptor: it is the engine's no-op
  field, which has no key and adds nothing to an entry.
\<close>

theorem Error_nil_is_no_field:
  "Error None = Skip \<and> AddTo (Error None) = []"
  by (simp add: Error_def zap_Error_def zap_NamedError_def)

text \<open>
  C8, amended. Every field constructor is a function of its arguments alone, with no
  state and no error result: for every input it returns the descriptor stated here. For
  every key and value, String, Int, Int64, Float64, Bool and Duration make the field of
  that key with that value, which adds exactly that key with that value to an entry
  through the encoder method of the value's type (Int as a 64-bit integer, Duration as a
  float64). Any makes, by the dynamic type of its value, the field the typed constructor
  makes, a reflected field for the nil interface, and for a value of any other type the
  engine's field for that type, under the same key. Error takes no key: for a non-nil
  error it makes the error field under the key "error", which adds the error's text under
  "error" (and, for a self-formatting error whose "%+v" text differs, that text under
  "errorVerbose"; for a group of errors, its members under "errorCauses"); Error at nil
  makes the no-op field, which has no key and adds nothing.
\<close>

theorem field_constructors_render:
  "String key s = Field key (StringType s) \<and>
   AddTo (String key s) = [AddString key s] \<and>
   Int_field key i = Field key (Int64Type i) \<and>
   AddTo (Int_field key i) = [AddInt64 key i] \<and>
   Int64 key i = Field key (Int64Type i) \<and>
   AddTo (Int64 key i) = [AddInt64 key i] \<and>
   Float64 key f = Field key (Float64Type f) \<and>
   AddTo (Float64 key f) = [AddFloat64 key f] \<and>
   Bool key b = Field key (BoolType b) \<and>
   AddTo (Bool key b) = [AddBool key b] \<and>
   Duration key f = Field key (Float64Type f) \<and>
   AddTo (Duration key f) = [AddFloat64 key f] \<and>
   Error (Some e) = Field ''error'' (ErrorType e) \<and>
   AddTo (Error (Some e)) = encodeError ''error'' e \<and>
   AddTo (Error (Some (PlainError text))) = [AddString ''error'' text] \<and>
   AddTo (Error (Some (FormatterError text verbose))) =
     AddString ''error'' text #
     (if verbose \<noteq> text then [AddString ''errorVerbose'' verbose] else []) \<and>
   AddTo (Error (Some (GroupError text errs))) =
     [AddString ''error'' text,
      AddArray ''errorCauses'' (map (encodeError ''error'') errs)] \<and>
   Error None = Skip \<and>
   AddTo (Error None) = [] \<and>
   AddTo (Any key (VString s)) = [AddString key s] \<and>
   AddTo (Any key (VInt i)) = [AddInt64 key i] \<and>
   AddTo (Any key (VInt64 i)) = [AddInt64 key i] \<and>
   AddTo (Any key (VFloat64 f)) = [AddFloat64 key f] \<and>
   AddTo (Any key (VBool b)) = [AddBool key b] \<and>
   AddTo (Any key (VError e)) = encodeError key e \<and>
   AddTo (Any key (VDuration i)) = [AddDuration key i] \<and>
   AddTo (Any key VNil) = [AddReflected key VNil] \<and>
   Any key (VOther v) = Field key (OtherType v) \<and>
   AddTo (Any key (VOther v)) = [AddOther key v]"
  by (simp add: String_def Int_field_def Int64_def Float64_def Bool_def Duration_def Error_def
      Any_def zap_String_def zap_Int_def zap_Int64_def zap_Float64_def zap_Bool_def
      zap_Duration_def zap_Error_def zap_NamedError_def zap_Reflect_def)

text \<open>
  C9. For every key and float64 value, Duration returns the very field that Float64
  returns: a float field, added to an entry through the encoder's float method and never
  through its duration method, and different from every duration field of the engine.
\<close>

theorem Duration_is_Float64:
  "Duration key val = Float64 key val \<and>
   AddTo (Duration key val) = [AddFloat64 key val] \<and>
   Duration key val \<noteq> zap_Duration key d"
  by (simp add: Duration_def Float64_def zap_Float64_def zap_Duration_def)

end
